theory Spec2Isabelle
  imports Main
begin

section \<open>Data model of the OAuth client (models/OauthClient)\<close>

text \<open>
  The TypeScript union types of the client model become datatypes, the mongoose document
  a record. Optional fields (\<^verbatim>\<open>secretKey?\<close>, \<^verbatim>\<open>domaine?\<close>, \<^verbatim>\<open>revokedAt?\<close>) are options;
  \<^verbatim>\<open>scope\<close> is declared \<^verbatim>\<open>string\<close> in \<^verbatim>\<open>IOauthClient\<close> and stays a string, the
  falsy test \<^verbatim>\<open>!this.scope\<close> of the save hook being the test for the empty string.
  Dates are milliseconds since the epoch, document identifiers are natural numbers.
\<close>

datatype OauthClientType = Confidential | Public

datatype OauthClientProfileType = Web | UserAgentBased | Native

datatype OauthClientGrantType = Implicit | ClientCredentials | Password | AuthorizationCode

record OauthClient =
  c_id :: nat
  c_clientId :: string
  c_name :: string
  c_domaine :: "string option"
  c_secretKey :: "string option"
  c_internal :: bool
  c_grants :: "OauthClientGrantType list"
  c_redirectURIs :: "string list"
  c_clientType :: OauthClientType
  c_clientProfile :: OauthClientProfileType
  c_scope :: string
  c_revokedAt :: "int option"

section \<open>JavaScript strings\<close>

text \<open>
  \<^verbatim>\<open>s.split(sep)\<close> for a one-character separator: the pieces between the occurrences of
  the separator, empty pieces kept, so that the empty string gives one empty piece.
\<close>

fun split_str :: "char \<Rightarrow> string \<Rightarrow> string list" where
  "split_str sep [] = [[]]"
| "split_str sep (c # cs) =
     (if c = sep then [] # split_str sep cs
      else (case split_str sep cs of
              [] \<Rightarrow> [[c]]
            | w # ws \<Rightarrow> (c # w) # ws))"

text \<open>\<^verbatim>\<open>xs.join(sep)\<close>.\<close>

fun join_str :: "char \<Rightarrow> string list \<Rightarrow> string" where
  "join_str sep [] = []"
| "join_str sep [w] = w"
| "join_str sep (w # v # ws) = w @ sep # join_str sep (v # ws)"

text \<open>
  A value of type \<^verbatim>\<open>string | undefined\<close> used as a condition: \<^verbatim>\<open>undefined\<close> and the
  empty string are falsy. \<open>truthy\<close> returns the string when the condition holds.
\<close>

definition truthy :: "string option \<Rightarrow> string option" where
  "truthy v = (case v of None \<Rightarrow> None | Some s \<Rightarrow> (if s = [] then None else Some s))"

section \<open>Scope resolver\<close>

text \<open>The loop of \<^verbatim>\<open>validateScope\<close> over the requested tokens, with its early return.\<close>

fun all_included :: "string list \<Rightarrow> string list \<Rightarrow> bool" where
  "all_included clientScopes [] = True"
| "all_included clientScopes (item # rest) =
     (if item \<notin> set clientScopes then False else all_included clientScopes rest)"

definition validateScope :: "OauthClient \<Rightarrow> string \<Rightarrow> bool" where
  "validateScope this scope =
     (if c_scope this \<noteq> ''*'' then
        (if scope = ''*'' then False
         else all_included (split_str CHR '' '' (c_scope this)) (split_str CHR '' '' scope))
      else True)"

text \<open>
  Modelled from the spec: \<^verbatim>\<open>UtilsHelper.getMatchedScope\<close> is not among the sources. The
  spec calls its result the intersection of the tokens of the two scopes; here the
  tokens of the first scope that occur in the second, in the order of the first.
  \<open>mergedScope\<close> below takes the helper as a parameter, so what is proved of
  \<open>mergedScope\<close> holds for any implementation of the helper.
\<close>

definition getMatchedScope :: "string \<Rightarrow> string \<Rightarrow> string" where
  "getMatchedScope a b =
     join_str CHR '' '' (filter (\<lambda>t. t \<in> set (split_str CHR '' '' b)) (split_str CHR '' '' a))"

definition mergedScope ::
  "(string \<Rightarrow> string \<Rightarrow> string) \<Rightarrow> OauthClient \<Rightarrow> string \<Rightarrow> string option \<Rightarrow> string option" where
  "mergedScope matched this subjectScope requestScope =
     (case truthy requestScope of
        Some rs \<Rightarrow>
          (if validateScope this rs then
             (if rs = ''*'' then Some subjectScope
              else if subjectScope = ''*'' then Some rs
              else Some (matched subjectScope rs))
           else None)
      | None \<Rightarrow>
          (if c_scope this = ''*'' then Some subjectScope
           else if subjectScope = ''*'' then Some (c_scope this)
           else Some (matched subjectScope (c_scope this))))"

section \<open>The save hook of the client\<close>

text \<open>
  \<^verbatim>\<open>validator.isURL\<close> is a library function and a parameter here. The hook mutates the
  document and calls \<^verbatim>\<open>next\<close>: once with an error when a redirect URI is not a URL, and then
  in every case once without. The model returns the document and the calls of
  \<^verbatim>\<open>next\<close> in order.
\<close>

record hook_error =
  he_name :: string
  he_message :: string

fun invalidUriFound :: "(string \<Rightarrow> bool) \<Rightarrow> string list \<Rightarrow> bool" where
  "invalidUriFound isURL [] = False"
| "invalidUriFound isURL (uri # rest) =
     (if \<not> isURL uri then True else invalidUriFound isURL rest)"

definition pre_save ::
  "(string \<Rightarrow> bool) \<Rightarrow> OauthClient \<Rightarrow> OauthClient \<times> hook_error option list" where
  "pre_save isURL this0 =
     (let this1 =
            (if c_clientProfile this0 = Web then this0\<lparr>c_clientType := Confidential\<rparr>
             else this0\<lparr>c_clientType := Public, c_secretKey := None\<rparr>);
          this2 =
            (case c_clientType this1 of
               Public \<Rightarrow>
                 (if c_internal this1
                  then this1\<lparr>c_grants := [Implicit, AuthorizationCode, Password]\<rparr>
                  else this1\<lparr>c_grants := [Implicit, AuthorizationCode]\<rparr>)
             | Confidential \<Rightarrow>
                 (if c_internal this1
                  then this1\<lparr>c_grants :=
                               [Implicit, AuthorizationCode, Password, ClientCredentials]\<rparr>
                  else this1\<lparr>c_grants := [Implicit, AuthorizationCode]\<rparr>));
          calls =
            (if invalidUriFound isURL (c_redirectURIs this2)
             then [Some \<lparr>he_name = ''Redirect URIs validation fail'',
                         he_message = ''The redirect URIs value must be valid URLs.''\<rparr>]
             else []);
          this3 =
            (if c_internal this2 \<and> c_scope this2 = [] then this2\<lparr>c_scope := ''*''\<rparr>
             else this2)
      in (this3, calls @ [None]))"

section \<open>Configuration, persisted records and the store\<close>

text \<open>
  \<^verbatim>\<open>IOauthDefaults\<close> (not among the sources) is read field by field: two tables of
  lifetimes in seconds and three strings.
\<close>

record expires_table =
  public_internal :: int
  public_external :: int
  confidential_internal :: int
  confidential_external :: int

record IOauthDefaults =
  p_accessTokenExpiresIn :: expires_table
  p_refreshTokenExpiresIn :: expires_table
  OAUTH_TOKEN_TYPE :: string
  OAUTH_HMAC_ALGORITHM :: string
  OAUTH_SECRET_KEY :: string

record OauthAuthCode =
  ac_client :: nat
  ac_authorizationCode :: string
  ac_userId :: string
  ac_scope :: string
  ac_redirectUri :: string
  ac_codeChallenge :: "string option"
  ac_codeChallengeMethod :: "string option"
  ac_expiresAt :: int
  ac_revokedAt :: "int option"

record OauthAccessToken =
  at_id :: nat
  at_userId :: string
  at_client :: nat
  at_name :: string
  at_scope :: string
  at_expiresAt :: int
  at_userAgent :: "string option"

record OauthRefreshToken =
  rt_id :: nat
  rt_accessToken :: nat
  rt_expiresAt :: int

text \<open>
  The four collections, and the next fresh document identifier. \<^verbatim>\<open>save()\<close> appends a
  document and takes the fresh identifier; a failing database is not modelled.
\<close>

record store =
  st_clients :: "OauthClient list"
  st_authCodes :: "OauthAuthCode list"
  st_accessTokens :: "OauthAccessToken list"
  st_refreshTokens :: "OauthRefreshToken list"
  st_nextId :: nat

section \<open>Requests, responses and thrown values\<close>

record ITokenRequest =
  d_client_id :: "string option"
  d_client_secret :: "string option"
  d_scope :: "string option"
  d_grant_type :: "string option"
  d_code :: "string option"
  d_redirect_uri :: "string option"
  d_code_verifier :: "string option"

record basic_credentials =
  b_client_id :: "string option"
  b_client_secret :: "string option"

record IOauthError =
  error :: string
  error_description :: string

record IToken =
  access_token :: string
  token_type :: string
  expires_in :: int
  refresh_token :: "string option"

datatype body = TokenBody IToken | ErrorBody IOauthError

record response =
  r_status :: nat
  r_body :: body

text \<open>
  What the code throws: an object with \<^verbatim>\<open>status\<close> and \<^verbatim>\<open>data\<close>, or (in the token
  factory) an object with a \<^verbatim>\<open>message\<close> only.
\<close>

datatype thrown = WithStatus nat IOauthError | WithMessage string

text \<open>
  Modelled from the spec: \<^verbatim>\<open>common/HttpStatus\<close> is not among the sources; the spec gives
  the numbers 200, 400 and 401 for the three members the code uses.
\<close>

definition HttpStatus_Ok :: nat where "HttpStatus_Ok = 200"
definition HttpStatus_BadRequest :: nat where "HttpStatus_BadRequest = 400"
definition HttpStatus_Unauthorized :: nat where "HttpStatus_Unauthorized = 401"

text \<open>
  Modelled from the spec: \<^verbatim>\<open>OauthHelper.throwError\<close> is not among the sources. The spec
  gives each error code its status: 401 for \<^verbatim>\<open>invalid_client\<close>, 400 for the other
  codes. The controller that calls it takes the helper from the surroundings of the
  request (\<open>e_throwError\<close> below).
\<close>

definition throwError :: "IOauthError \<Rightarrow> response" where
  "throwError err =
     \<lparr>r_status = (if error err = ''invalid_client'' then HttpStatus_Unauthorized
                  else HttpStatus_BadRequest),
      r_body = ErrorBody err\<rparr>"

record jwt_claims =
  j_client_id :: string
  j_scope :: "string option"
  j_azp :: string
  j_aud :: string
  j_sub :: string
  j_jti :: nat
  j_exp :: int

record OauthTokenType =
  token :: string
  accessTokenExpireIn :: int
  refreshToken :: "string option"

record NewAccessTokenParams =
  p_grant :: OauthClientGrantType
  p_scope :: string
  p_subject :: string

text \<open>
  The surroundings of a request: the clock (\<^verbatim>\<open>moment()\<close>, read once per request), the
  user-agent header, and the functions that are not among the sources:
  \<^verbatim>\<open>OauthHelper.jwtSign\<close>, \<^verbatim>\<open>OauthHelper.verifyClientSecret\<close> (client id, hash,
  algorithm, key), \<^verbatim>\<open>OauthHelper.throwError\<close>, the SHA-256 digest in base64 of
  \<^verbatim>\<open>crypto\<close>, \<^verbatim>\<open>toASCII\<close> of \<^verbatim>\<open>punycode\<close>, and the helpers of the three other
  grants.
\<close>

record env =
  e_now :: int
  e_userAgent :: "string option"
  e_jwtSign :: "jwt_claims \<Rightarrow> string"
  e_verifyClientSecret :: "string \<Rightarrow> string \<Rightarrow> string \<Rightarrow> string \<Rightarrow> bool"
  e_throwError :: "IOauthError \<Rightarrow> response"
  e_sha256_base64 :: "string \<Rightarrow> string"
  e_toASCII :: "string \<Rightarrow> string"
  e_clientCredentials_run :: "store \<Rightarrow> ITokenRequest \<Rightarrow> OauthClient \<Rightarrow> response \<times> store"
  e_password_run :: "store \<Rightarrow> ITokenRequest \<Rightarrow> OauthClient \<Rightarrow> response \<times> store"
  e_refreshToken_run :: "store \<Rightarrow> ITokenRequest \<Rightarrow> OauthClient \<Rightarrow> response \<times> store"

section \<open>Token factory\<close>

definition accessTokenExpiresIn :: "OauthClient \<Rightarrow> IOauthDefaults \<Rightarrow> int" where
  "accessTokenExpiresIn this oauthParams =
     (case c_clientType this of
        Public \<Rightarrow>
          (if c_internal this then public_internal (p_accessTokenExpiresIn oauthParams)
           else public_external (p_accessTokenExpiresIn oauthParams))
      | Confidential \<Rightarrow>
          (if c_internal this then confidential_internal (p_accessTokenExpiresIn oauthParams)
           else confidential_external (p_accessTokenExpiresIn oauthParams)))"

definition refreshTokenExpiresIn :: "OauthClient \<Rightarrow> IOauthDefaults \<Rightarrow> int" where
  "refreshTokenExpiresIn this oauthParams =
     (case c_clientType this of
        Public \<Rightarrow>
          (if c_internal this then public_internal (p_refreshTokenExpiresIn oauthParams)
           else public_external (p_refreshTokenExpiresIn oauthParams))
      | Confidential \<Rightarrow>
          (if c_internal this then confidential_internal (p_refreshTokenExpiresIn oauthParams)
           else confidential_external (p_refreshTokenExpiresIn oauthParams)))"

fun grant_str :: "OauthClientGrantType \<Rightarrow> string" where
  "grant_str Implicit = ''implicit''"
| "grant_str ClientCredentials = ''client_credentials''"
| "grant_str Password = ''password''"
| "grant_str AuthorizationCode = ''authorization_code''"

text \<open>\<^verbatim>\<open>this.domaine ?? this.clientId\<close>.\<close>

definition domaine_or_clientId :: "OauthClient \<Rightarrow> string" where
  "domaine_or_clientId this = (case c_domaine this of None \<Rightarrow> c_clientId this | Some d \<Rightarrow> d)"

text \<open>
  \<^verbatim>\<open>moment().add(n, "seconds")\<close> as a time in milliseconds. The token factory returns
  the token and the new store, or the thrown value, the store then being as it was.
\<close>

definition add_seconds :: "int \<Rightarrow> int \<Rightarrow> int" where
  "add_seconds t n = t + n * 1000"

definition newAccessToken ::
  "env \<Rightarrow> IOauthDefaults \<Rightarrow> store \<Rightarrow> OauthClient \<Rightarrow> NewAccessTokenParams
     \<Rightarrow> thrown + (OauthTokenType \<times> store)" where
  "newAccessToken e oauthParams s this params =
     (if p_grant params \<in> set (c_grants this) then
        (let ttl = accessTokenExpiresIn this oauthParams;
             oauthAccessToken =
               \<lparr>at_id = st_nextId s, at_userId = p_subject params, at_client = c_id this,
                at_name = c_name this, at_scope = p_scope params,
                at_expiresAt = add_seconds (e_now e) ttl, at_userAgent = e_userAgent e\<rparr>;
             s1 = s\<lparr>st_accessTokens := st_accessTokens s @ [oauthAccessToken],
                    st_nextId := Suc (st_nextId s)\<rparr>;
             r = \<lparr>token = e_jwtSign e
                            \<lparr>j_client_id = c_clientId this, j_scope = Some (p_scope params),
                             j_azp = domaine_or_clientId this, j_aud = domaine_or_clientId this,
                             j_sub = p_subject params, j_jti = at_id oauthAccessToken,
                             j_exp = at_expiresAt oauthAccessToken\<rparr>,
                  accessTokenExpireIn = ttl, refreshToken = None\<rparr>
         in if p_grant params \<notin> set [ClientCredentials, Implicit]
               \<and> c_clientType this = Confidential
            then
              (let oauthRefreshToken =
                     \<lparr>rt_id = st_nextId s1, rt_accessToken = at_id oauthAccessToken,
                      rt_expiresAt =
                        add_seconds (e_now e) (refreshTokenExpiresIn this oauthParams)\<rparr>;
                   s2 = s1\<lparr>st_refreshTokens := st_refreshTokens s1 @ [oauthRefreshToken],
                           st_nextId := Suc (st_nextId s1)\<rparr>
               in Inr (r\<lparr>refreshToken :=
                            Some (e_jwtSign e
                              \<lparr>j_client_id = c_clientId this, j_scope = None,
                               j_azp = domaine_or_clientId this,
                               j_aud = domaine_or_clientId this,
                               j_sub = p_subject params, j_jti = rt_id oauthRefreshToken,
                               j_exp = rt_expiresAt oauthRefreshToken\<rparr>)\<rparr>, s2))
            else Inr (r, s1))
      else Inl (WithMessage
                 (grant_str (p_grant params)
                    @ '' authorization grant type is not allowed for this client.'')))"

section \<open>The authorization code grant (TokenGrantAuthorizationCodeHelper)\<close>

text \<open>
  \<^verbatim>\<open>OauthAuthCode.findOne({client, authorizationCode})\<close>: the first stored code of this
  client with this value; a request without \<^verbatim>\<open>code\<close> finds none.
\<close>

definition findAuthCode :: "store \<Rightarrow> nat \<Rightarrow> string option \<Rightarrow> OauthAuthCode option" where
  "findAuthCode s client code =
     find (\<lambda>a. ac_client a = client \<and> Some (ac_authorizationCode a) = code) (st_authCodes s)"

text \<open>The three \<^verbatim>\<open>replace\<close> calls applied to the base64 digest.\<close>

definition base64_to_url :: "string \<Rightarrow> string" where
  "base64_to_url digest =
     map (\<lambda>c. if c = CHR ''/'' then CHR ''_'' else c)
       (map (\<lambda>c. if c = CHR ''+'' then CHR ''-'' else c)
          (filter (\<lambda>c. c \<noteq> CHR ''='') digest))"

definition hashed_verifier :: "env \<Rightarrow> string \<Rightarrow> string" where
  "hashed_verifier e code_verifier =
     base64_to_url (e_sha256_base64 e (e_toASCII e code_verifier))"

text \<open>
  The block "Code verifier check": the value it throws, or nothing. The \<^verbatim>\<open>switch\<close> has
  the cases \<^verbatim>\<open>"plain"\<close> and \<^verbatim>\<open>"S256"\<close> and no default.
\<close>

definition codeVerifierCheck :: "env \<Rightarrow> OauthAuthCode \<Rightarrow> ITokenRequest \<Rightarrow> thrown option" where
  "codeVerifierCheck e oauthCode data =
     (case truthy (ac_codeChallenge oauthCode) of
        None \<Rightarrow> None
      | Some codeChallenge \<Rightarrow>
          (case truthy (d_code_verifier data) of
             None \<Rightarrow>
               Some (WithStatus HttpStatus_BadRequest
                 \<lparr>error = ''invalid_request'',
                  error_description =
                    ''The '' @ [CHR 0x22] @ ''code_verifier'' @ [CHR 0x22] @ '' is required.''\<rparr>)
           | Some code_verifier \<Rightarrow>
               (if ac_codeChallengeMethod oauthCode = Some ''plain'' then
                  (if code_verifier \<noteq> codeChallenge then
                     Some (WithStatus HttpStatus_BadRequest
                       \<lparr>error = ''invalid_grant'',
                        error_description =
                          ''Code verifier and code challenge are not identical.''\<rparr>)
                   else None)
                else if ac_codeChallengeMethod oauthCode = Some ''S256'' then
                  (if hashed_verifier e code_verifier \<noteq> codeChallenge then
                     Some (WithStatus HttpStatus_BadRequest
                       \<lparr>error = ''invalid_grant'',
                        error_description =
                          ''Hashed code verifier and code challenge are not identical.''\<rparr>)
                   else None)
                else None)))"

text \<open>
  The block "Generate tokens": the call of the token factory for the stored code and the
  response built from its result.
\<close>

definition generateTokens ::
  "env \<Rightarrow> IOauthDefaults \<Rightarrow> store \<Rightarrow> OauthClient \<Rightarrow> OauthAuthCode
     \<Rightarrow> thrown + (response \<times> store)" where
  "generateTokens e oauthParams s client oauthCode =
     (case newAccessToken e oauthParams s client
             \<lparr>p_grant = AuthorizationCode, p_scope = ac_scope oauthCode,
              p_subject = ac_userId oauthCode\<rparr> of
        Inl err \<Rightarrow> Inl err
      | Inr (tokens, s') \<Rightarrow>
          Inr (\<lparr>r_status = HttpStatus_Ok,
                r_body = TokenBody
                  \<lparr>access_token = token tokens,
                   token_type = OAUTH_TOKEN_TYPE oauthParams,
                   expires_in = accessTokenExpireIn tokens,
                   refresh_token = refreshToken tokens\<rparr>\<rparr>, s'))"

text \<open>The body of the \<^verbatim>\<open>try\<close> block of \<^verbatim>\<open>run\<close>.\<close>

definition run_try ::
  "env \<Rightarrow> IOauthDefaults \<Rightarrow> store \<Rightarrow> ITokenRequest \<Rightarrow> OauthClient
     \<Rightarrow> thrown + (response \<times> store)" where
  "run_try e oauthParams s data client =
     (case findAuthCode s (c_id client) (d_code data) of
        Some oauthCode \<Rightarrow>
          (if e_now e > ac_expiresAt oauthCode then
             Inl (WithStatus HttpStatus_BadRequest
               \<lparr>error = ''invalid_grant'',
                error_description =
                  ''The authorization code has been expired. Try to get another one.''\<rparr>)
           else if ac_revokedAt oauthCode \<noteq> None then
             Inl (WithStatus HttpStatus_BadRequest
               \<lparr>error = ''invalid_grant'',
                error_description =
                  ''The authorization code has been revoked. Try to get another one.''\<rparr>)
           else if Some (ac_redirectUri oauthCode) \<noteq> d_redirect_uri data then
             Inl (WithStatus HttpStatus_BadRequest
               \<lparr>error = ''invalid_grant'',
                error_description =
                  ''The redirect_uri parameter must be identical to the one included in the authorization request.''\<rparr>)
           else
             (case codeVerifierCheck e oauthCode data of
                Some err \<Rightarrow> Inl err
              | None \<Rightarrow>
                  generateTokens e oauthParams s client oauthCode))
      | None \<Rightarrow>
          Inl (WithStatus HttpStatus_BadRequest
            \<lparr>error = ''invalid_grant'',
             error_description = ''The authorization code is not valid.''\<rparr>))"

definition server_error :: IOauthError where
  "server_error =
     \<lparr>error = ''server_error'',
      error_description =
        ''The authorization server encountered an unexpected condition that prevented it from fulfilling the request.''\<rparr>"

text \<open>
  The \<^verbatim>\<open>catch\<close> block, the same in \<^verbatim>\<open>run\<close> and in \<^verbatim>\<open>OauthController.token\<close>: a thrown
  value with a truthy \<^verbatim>\<open>status\<close> is sent as it is, anything else as \<^verbatim>\<open>server_error\<close>.
\<close>

definition catch_thrown :: "thrown \<Rightarrow> response" where
  "catch_thrown err =
     (case err of
        WithStatus st d \<Rightarrow>
          (if st \<noteq> 0 then \<lparr>r_status = st, r_body = ErrorBody d\<rparr>
           else \<lparr>r_status = HttpStatus_BadRequest, r_body = ErrorBody server_error\<rparr>)
      | WithMessage m \<Rightarrow> \<lparr>r_status = HttpStatus_BadRequest, r_body = ErrorBody server_error\<rparr>)"

definition run ::
  "env \<Rightarrow> IOauthDefaults \<Rightarrow> store \<Rightarrow> ITokenRequest \<Rightarrow> OauthClient \<Rightarrow> response \<times> store" where
  "run e oauthParams s data client =
     (case run_try e oauthParams s data client of
        Inl err \<Rightarrow> (catch_thrown err, s)
      | Inr res \<Rightarrow> res)"

section \<open>The token endpoint\<close>

text \<open>
  The request data after the Basic header has been read: when the header gives
  credentials, they replace \<^verbatim>\<open>client_id\<close> and \<^verbatim>\<open>client_secret\<close> of the body.
\<close>

definition with_basic :: "basic_credentials option \<Rightarrow> ITokenRequest \<Rightarrow> ITokenRequest" where
  "with_basic basicAuthCredentials body =
     (case basicAuthCredentials of
        None \<Rightarrow> body
      | Some b \<Rightarrow> body\<lparr>d_client_id := b_client_id b, d_client_secret := b_client_secret b\<rparr>)"

text \<open>\<^verbatim>\<open>OauthClient.findOne({clientId})\<close>.\<close>

definition findClient :: "store \<Rightarrow> string \<Rightarrow> OauthClient option" where
  "findClient s client_id = find (\<lambda>c. c_clientId c = client_id) (st_clients s)"

text \<open>\<^verbatim>\<open>data.scope && !client.validateScope(data.scope)\<close>.\<close>

definition scope_rejected :: "OauthClient \<Rightarrow> ITokenRequest \<Rightarrow> bool" where
  "scope_rejected client data =
     (case truthy (d_scope data) of None \<Rightarrow> False | Some sc \<Rightarrow> \<not> validateScope client sc)"

text \<open>
  \<^verbatim>\<open>data.client_secret && data.client_secret.length !== 0 && !verifyClientSecret(...)\<close>.
\<close>

definition secret_rejected :: "env \<Rightarrow> IOauthDefaults \<Rightarrow> OauthClient \<Rightarrow> ITokenRequest \<Rightarrow> bool" where
  "secret_rejected e oauthParams client data =
     (case truthy (d_client_secret data) of
        None \<Rightarrow> False
      | Some sec \<Rightarrow>
          length sec \<noteq> 0
          \<and> \<not> e_verifyClientSecret e (c_clientId client) sec
                (OAUTH_HMAC_ALGORITHM oauthParams) (OAUTH_SECRET_KEY oauthParams))"

text \<open>The body of the \<^verbatim>\<open>try\<close> block of \<^verbatim>\<open>OauthController.token\<close>.\<close>

definition token_try ::
  "env \<Rightarrow> IOauthDefaults \<Rightarrow> store \<Rightarrow> ITokenRequest \<Rightarrow> thrown + (response \<times> store)" where
  "token_try e oauthParams s data =
     (case truthy (d_client_id data) of
        None \<Rightarrow>
          Inl (WithStatus HttpStatus_BadRequest
            \<lparr>error = ''invalid_request'',
             error_description =
               ''The client_id is required. You can send it with client_secret in body or via Basic Auth header.''\<rparr>)
      | Some client_id \<Rightarrow>
          (case findClient s client_id of
             None \<Rightarrow>
               Inl (WithStatus HttpStatus_Unauthorized
                 \<lparr>error = ''invalid_client'', error_description = ''Unknown client''\<rparr>)
           | Some client \<Rightarrow>
               (if c_revokedAt client \<noteq> None then
                  Inl (WithStatus HttpStatus_Unauthorized
                    \<lparr>error = ''invalid_client'',
                     error_description =
                       ''The client related to this request has been revoked.''\<rparr>)
                else if scope_rejected client data then
                  Inl (WithStatus HttpStatus_BadRequest
                    \<lparr>error = ''invalid_scope'',
                     error_description =
                       ''The requested scope is invalid, unknown, malformed, or exceeds the scope granted.''\<rparr>)
                else if c_clientType client = Confidential
                        \<and> truthy (d_client_secret data) = None then
                  Inl (WithStatus HttpStatus_BadRequest
                    \<lparr>error = ''invalid_request'',
                     error_description =
                       ''The secret_secret is required for confidential client. You can send it with client_id in body or via Basic Auth header.''\<rparr>)
                else if secret_rejected e oauthParams client data then
                  Inl (WithStatus HttpStatus_Unauthorized
                    \<lparr>error = ''invalid_client'',
                     error_description = ''Invalid client secret.''\<rparr>)
                else if d_grant_type data = Some ''authorization_code'' then
                  Inr (run e oauthParams s data client)
                else if d_grant_type data = Some ''client_credentials'' then
                  Inr (e_clientCredentials_run e s data client)
                else if d_grant_type data = Some ''password'' then
                  Inr (e_password_run e s data client)
                else if d_grant_type data = Some ''refresh_token'' then
                  Inr (e_refreshToken_run e s data client)
                else
                  Inl (WithStatus HttpStatus_BadRequest
                    \<lparr>error = ''unsupported_grant_type'',
                     error_description =
                       ''The authorization grant type is not supported by the authorization server.''\<rparr>))))"

definition OauthController_token ::
  "env \<Rightarrow> IOauthDefaults \<Rightarrow> store \<Rightarrow> basic_credentials option \<Rightarrow> ITokenRequest
     \<Rightarrow> response \<times> store" where
  "OauthController_token e oauthParams s basicAuthCredentials body =
     (case token_try e oauthParams s (with_basic basicAuthCredentials body) of
        Inl err \<Rightarrow> (catch_thrown err, s)
      | Inr res \<Rightarrow> res)"


section \<open>Example data\<close>

text \<open>
  The clients of the spec's scenarios, as the save hook leaves them: \<open>c1\<close> is the web
  client of scenario 1 (created without a secret key), \<open>c2\<close> the internal native client
  of scenario 3. \<open>c3\<close> is an external web client whose scope lists \<^verbatim>\<open>*\<close> beside
  another token.
\<close>

definition c1 :: OauthClient where
  "c1 = \<lparr>c_id = 1, c_clientId = ''c1'', c_name = ''app one'', c_domaine = Some ''https://app'',
          c_secretKey = None, c_internal = False,
          c_grants = [Implicit, AuthorizationCode],
          c_redirectURIs = [''https://app/cb''], c_clientType = Confidential,
          c_clientProfile = Web, c_scope = ''read write'', c_revokedAt = None\<rparr>"

definition c2 :: OauthClient where
  "c2 = \<lparr>c_id = 2, c_clientId = ''c2'', c_name = ''app two'', c_domaine = None,
          c_secretKey = None, c_internal = True,
          c_grants = [Implicit, AuthorizationCode, Password],
          c_redirectURIs = [], c_clientType = Public,
          c_clientProfile = Native, c_scope = ''*'', c_revokedAt = None\<rparr>"

definition c3 :: OauthClient where
  "c3 = \<lparr>c_id = 3, c_clientId = ''c3'', c_name = ''app three'', c_domaine = Some ''https://three'',
          c_secretKey = None, c_internal = False,
          c_grants = [Implicit, AuthorizationCode],
          c_redirectURIs = [], c_clientType = Confidential,
          c_clientProfile = Web, c_scope = ''read *'', c_revokedAt = None\<rparr>"

text \<open>
  \<open>c4\<close> is an external native client, public, with the scope \<^verbatim>\<open>read\<close>.
\<close>

definition c4 :: OauthClient where
  "c4 = \<lparr>c_id = 4, c_clientId = ''c4'', c_name = ''app four'', c_domaine = None,
          c_secretKey = None, c_internal = False,
          c_grants = [Implicit, AuthorizationCode],
          c_redirectURIs = [], c_clientType = Public,
          c_clientProfile = Native, c_scope = ''read'', c_revokedAt = None\<rparr>"

text \<open>
  A web client as an administrator may submit it, before the hook has run: no secret
  key, no redirect URI yet, the client type at its default.
\<close>

definition web_draft :: OauthClient where
  "web_draft =
     \<lparr>c_id = 5, c_clientId = ''w1'', c_name = ''web one'',
      c_domaine = Some ''https://web.example.com'', c_secretKey = None, c_internal = False,
      c_grants = [], c_redirectURIs = [], c_clientType = Public,
      c_clientProfile = Web, c_scope = ''read'', c_revokedAt = None\<rparr>"

text \<open>
  A stand-in for \<^verbatim>\<open>validator.isURL\<close> in the examples: an \<^verbatim>\<open>https\<close> URI whose host has
  a dot (the library requires a top-level domain).
\<close>

definition example_isURL :: "string \<Rightarrow> bool" where
  "example_isURL uri =
     (take 8 uri = ''https://''
      \<and> CHR ''.'' \<in> set (takeWhile (\<lambda>c. c \<noteq> CHR ''/'') (drop 8 uri)))"

definition example_params :: IOauthDefaults where
  "example_params =
     \<lparr>p_accessTokenExpiresIn =
        \<lparr>public_internal = 3600, public_external = 1800,
         confidential_internal = 7200, confidential_external = 3600\<rparr>,
      p_refreshTokenExpiresIn =
        \<lparr>public_internal = 86400, public_external = 43200,
         confidential_internal = 172800, confidential_external = 86400\<rparr>,
      OAUTH_TOKEN_TYPE = ''Bearer'', OAUTH_HMAC_ALGORITHM = ''sha512'',
      OAUTH_SECRET_KEY = ''key''\<rparr>"

text \<open>
  Stand-ins for the library functions in the examples. The digest is SHA-256 in base64
  on the two inputs the examples hash: the verifier of RFC 7636, appendix B, and the empty
  string. The secret check accepts the client id prefixed with \<^verbatim>\<open>hmac-\<close>.
\<close>

definition example_digest :: "string \<Rightarrow> string" where
  "example_digest v =
     (if v = ''dBjftJeZ4CVP-mB92K27uhbUJU1p1r_wW1gFWFOEjXk''
      then ''E9Melhoa2OwvFrEMTJguCHaoeK1t8URWbuGJSstw+cM=''
      else if v = [] then ''47DEQpj8HBSa+/TImW+5JCeuQeRkm5NMpJWZG3hSuFU=''
      else [])"

definition example_jwtSign :: "jwt_claims \<Rightarrow> string" where
  "example_jwtSign claims = ''jwt.'' @ j_client_id claims @ ''.'' @ j_sub claims"

definition example_verify :: "string \<Rightarrow> string \<Rightarrow> string \<Rightarrow> string \<Rightarrow> bool" where
  "example_verify clientId hash alg key = (hash = ''hmac-'' @ clientId)"

definition example_other_run :: "store \<Rightarrow> ITokenRequest \<Rightarrow> OauthClient \<Rightarrow> response \<times> store" where
  "example_other_run s data client =
     (\<lparr>r_status = HttpStatus_BadRequest, r_body = ErrorBody server_error\<rparr>, s)"

definition example_env :: env where
  "example_env =
     \<lparr>e_now = 1000, e_userAgent = Some ''curl'', e_jwtSign = example_jwtSign,
      e_verifyClientSecret = example_verify, e_throwError = throwError,
      e_sha256_base64 = example_digest, e_toASCII = (\<lambda>v. v),
      e_clientCredentials_run = example_other_run, e_password_run = example_other_run,
      e_refreshToken_run = example_other_run\<rparr>"

text \<open>
  Five authorization codes of \<open>c1\<close>: with the S256 challenge of RFC 7636, with a plain
  challenge, with a challenge and no method, with the S256 challenge of the empty
  verifier, and a revoked one.
\<close>

definition code_s256 :: OauthAuthCode where
  "code_s256 =
     \<lparr>ac_client = 1, ac_authorizationCode = ''code-s256'', ac_userId = ''u1'',
      ac_scope = ''read'', ac_redirectUri = ''https://app/cb'',
      ac_codeChallenge = Some ''E9Melhoa2OwvFrEMTJguCHaoeK1t8URWbuGJSstw-cM'',
      ac_codeChallengeMethod = Some ''S256'', ac_expiresAt = 5000, ac_revokedAt = None\<rparr>"

definition code_plain :: OauthAuthCode where
  "code_plain =
     code_s256\<lparr>ac_authorizationCode := ''code-plain'', ac_codeChallenge := Some ''abc'',
               ac_codeChallengeMethod := Some ''plain''\<rparr>"

definition code_nomethod :: OauthAuthCode where
  "code_nomethod =
     code_s256\<lparr>ac_authorizationCode := ''code-nomethod'', ac_codeChallenge := Some ''abc'',
               ac_codeChallengeMethod := None\<rparr>"

definition code_emptyhash :: OauthAuthCode where
  "code_emptyhash =
     code_s256\<lparr>ac_authorizationCode := ''code-emptyhash'',
               ac_codeChallenge := Some ''47DEQpj8HBSa-_TImW-5JCeuQeRkm5NMpJWZG3hSuFU''\<rparr>"

definition code_revoked :: OauthAuthCode where
  "code_revoked =
     code_s256\<lparr>ac_authorizationCode := ''code-revoked'', ac_revokedAt := Some 500\<rparr>"

text \<open>
  Two more codes of \<open>c1\<close>, stored with the empty string as challenge: one without a
  method, one with the method S256.
\<close>

definition code_blank_nomethod :: OauthAuthCode where
  "code_blank_nomethod =
     code_s256\<lparr>ac_authorizationCode := ''code-blank-nomethod'', ac_codeChallenge := Some [],
               ac_codeChallengeMethod := None\<rparr>"

definition code_blank_s256 :: OauthAuthCode where
  "code_blank_s256 =
     code_s256\<lparr>ac_authorizationCode := ''code-blank-s256'', ac_codeChallenge := Some []\<rparr>"

definition example_store :: store where
  "example_store =
     \<lparr>st_clients = [c1, c2, c3, c4],
      st_authCodes = [code_s256, code_plain, code_nomethod, code_emptyhash, code_revoked,
                      code_blank_nomethod, code_blank_s256],
      st_accessTokens = [], st_refreshTokens = [], st_nextId = 10\<rparr>"

definition empty_request :: ITokenRequest where
  "empty_request =
     \<lparr>d_client_id = None, d_client_secret = None, d_scope = None, d_grant_type = None,
      d_code = None, d_redirect_uri = None, d_code_verifier = None\<rparr>"

text \<open>The token request of scenario 1, and the same request for the other codes.\<close>

definition request_s256 :: ITokenRequest where
  "request_s256 =
     \<lparr>d_client_id = Some ''c1'', d_client_secret = Some ''hmac-c1'', d_scope = None,
      d_grant_type = Some ''authorization_code'', d_code = Some ''code-s256'',
      d_redirect_uri = Some ''https://app/cb'',
      d_code_verifier = Some ''dBjftJeZ4CVP-mB92K27uhbUJU1p1r_wW1gFWFOEjXk''\<rparr>"



definition request_revoked :: ITokenRequest where
  "request_revoked = request_s256\<lparr>d_code := Some ''code-revoked''\<rparr>"


text \<open>
  Two requests with an unknown grant type: one of \<open>c1\<close> with its secret and an empty
  scope, one of the public client \<open>c2\<close> with an empty secret.
\<close>

definition request_empty_scope :: ITokenRequest where
  "request_empty_scope =
     empty_request\<lparr>d_client_id := Some ''c1'', d_client_secret := Some ''hmac-c1'',
                   d_scope := Some [], d_grant_type := Some ''bogus''\<rparr>"

definition request_empty_secret :: ITokenRequest where
  "request_empty_secret =
     empty_request\<lparr>d_client_id := Some ''c2'', d_client_secret := Some [],
                   d_grant_type := Some ''bogus''\<rparr>"



definition request_plain :: ITokenRequest where
  "request_plain =
     request_s256\<lparr>d_code := Some ''code-plain'', d_code_verifier := Some ''abc''\<rparr>"



text \<open>A request of \<open>c2\<close> with a secret that is not the one of \<open>c2\<close>.\<close>

definition request_wrong_secret :: ITokenRequest where
  "request_wrong_secret =
     empty_request\<lparr>d_client_id := Some ''c2'', d_client_secret := Some ''wrong'',
                   d_grant_type := Some ''password''\<rparr>"

section \<open>Notions used in the statements\<close>

text \<open>
  The error code of a response, if it is an error response. A result answers with a
  status and an error code when its response has them and the store is the given one.
\<close>

definition response_error :: "response \<Rightarrow> string option" where
  "response_error r = (case r_body r of ErrorBody d \<Rightarrow> Some (error d) | TokenBody t \<Rightarrow> None)"

definition answers :: "response \<times> store \<Rightarrow> nat \<Rightarrow> string \<Rightarrow> store \<Rightarrow> bool" where
  "answers res st code s =
     (r_status (fst res) = st \<and> response_error (fst res) = Some code \<and> snd res = s)"


text \<open>The table of the spec: the grants of a client type and the internal flag.\<close>

fun spec_grants :: "OauthClientType \<Rightarrow> bool \<Rightarrow> OauthClientGrantType list" where
  "spec_grants Public True = [Implicit, AuthorizationCode, Password]"
| "spec_grants Public False = [Implicit, AuthorizationCode]"
| "spec_grants Confidential True = [Implicit, AuthorizationCode, Password, ClientCredentials]"
| "spec_grants Confidential False = [Implicit, AuthorizationCode]"

section \<open>Lemmas on the string and scope functions\<close>

lemma all_included_subset: "all_included cs xs = (set xs \<subseteq> set cs)"
  by (induction xs) auto

lemma truthy_Some: "(truthy v = Some s) = (v = Some s \<and> s \<noteq> [])"
  by (auto simp: truthy_def split: option.splits)

lemma truthy_None: "(truthy v = None) = (v = None \<or> v = Some [])"
  by (auto simp: truthy_def split: option.splits)

lemma split_str_nonempty: "split_str sep s \<noteq> []"
  by (induction s) (auto split: list.splits)

lemma join_str_Cons: "join_str sep ((a # w) # ws) = a # join_str sep (w # ws)"
  by (cases ws) auto

text \<open>Splitting loses nothing: joining the pieces gives the string back.\<close>

lemma join_split_str: "join_str sep (split_str sep s) = s"
  by (induction s) (auto split: list.splits simp: split_str_nonempty join_str_Cons)

lemma split_str_no_sep: "w \<in> set (split_str sep s) \<Longrightarrow> sep \<notin> set w"
  by (induction s arbitrary: w) (auto split: if_splits list.splits)

section \<open>validateScope\<close>

text \<open>
  C2, as the code has it: a client whose scope is \<^verbatim>\<open>*\<close> accepts every requested scope,
  the literal \<^verbatim>\<open>*\<close> included. A client whose scope is not \<^verbatim>\<open>*\<close> rejects the literal
  \<^verbatim>\<open>*\<close>, and accepts any other requested scope exactly when each of its space-separated
  tokens is among the space-separated tokens of the client's scope.
\<close>

theorem validateScope_cases:
  "(c_scope this = ''*'' \<longrightarrow> validateScope this scope)
   \<and> (c_scope this \<noteq> ''*'' \<longrightarrow>
        validateScope this scope =
          (scope \<noteq> ''*''
           \<and> (\<forall>t \<in> set (split_str CHR '' '' scope).
                 t \<in> set (split_str CHR '' '' (c_scope this)))))"
  by (auto simp: validateScope_def all_included_subset)

theorem validateScope_cases_witness:
  "c_scope c2 = ''*'' \<and> validateScope c2 ''anything at all''
   \<and> c_scope c1 \<noteq> ''*'' \<and> validateScope c1 ''write read''
   \<and> \<not> validateScope c1 ''read admin''"
  using validateScope_cases [of c2 "''anything at all''"]
    validateScope_cases [of c1 "''write read''"]
    validateScope_cases [of c1 "''read admin''"]
  by (simp add: c1_def c2_def)

text \<open>
  C2 as stated fails twice. The wildcard client \<open>c2\<close> accepts the requested scope
  \<^verbatim>\<open>*\<close>, which the claim has rejected. The client \<open>c3\<close>, whose scope \<^verbatim>\<open>read *\<close> is not
  the wildcard, rejects the requested scope \<^verbatim>\<open>*\<close> although its only token is among the
  client's tokens.
\<close>

theorem validateScope_wildcard_counterexample:
  "c_scope c2 = ''*'' \<and> validateScope c2 ''*''
   \<and> c_scope c3 \<noteq> ''*''
   \<and> set (split_str CHR '' '' ''*'') \<subseteq> set (split_str CHR '' '' (c_scope c3))
   \<and> \<not> validateScope c3 ''*''"
  by (simp add: c2_def c3_def validateScope_def)

section \<open>mergedScope\<close>

text \<open>
  C7, as the code has it. The request scope counts as supplied when it is a non-empty
  string (\<open>truthy\<close>); an empty request scope is handled like an absent one. A supplied
  and valid request scope gives the subject scope if the request scope is \<^verbatim>\<open>*\<close>, the
  request scope if the subject scope is \<^verbatim>\<open>*\<close>, and otherwise what
  \<^verbatim>\<open>getMatchedScope\<close> returns for the subject scope and the request scope. A supplied
  and invalid request scope gives \<^verbatim>\<open>undefined\<close>. Without a request scope the result is
  the subject scope if the client's scope is \<^verbatim>\<open>*\<close>, the client's scope if the subject
  scope is \<^verbatim>\<open>*\<close>, and otherwise what \<^verbatim>\<open>getMatchedScope\<close> returns for the subject
  scope and the client's scope.
\<close>

theorem mergedScope_cases:
  "(truthy requestScope = Some rs \<and> validateScope this rs \<longrightarrow>
      mergedScope matched this subjectScope requestScope =
        Some (if rs = ''*'' then subjectScope
              else if subjectScope = ''*'' then rs
              else matched subjectScope rs))
   \<and> (truthy requestScope = Some rs \<and> \<not> validateScope this rs \<longrightarrow>
        mergedScope matched this subjectScope requestScope = None)
   \<and> (truthy requestScope = None \<longrightarrow>
        mergedScope matched this subjectScope requestScope =
          Some (if c_scope this = ''*'' then subjectScope
                else if subjectScope = ''*'' then c_scope this
                else matched subjectScope (c_scope this)))"
  by (simp add: mergedScope_def)

theorem mergedScope_cases_witness:
  "truthy (Some ''read'') = Some ''read'' \<and> validateScope c1 ''read''
   \<and> mergedScope getMatchedScope c1 ''write read'' (Some ''read'') = Some ''read''
   \<and> truthy (Some ''admin'') = Some ''admin'' \<and> \<not> validateScope c1 ''admin''
   \<and> mergedScope getMatchedScope c1 ''write read'' (Some ''admin'') = None
   \<and> truthy None = None
   \<and> mergedScope getMatchedScope c1 ''write admin'' None = Some ''write''"
  using mergedScope_cases [of "Some ''read''" "''read''" c1 getMatchedScope "''write read''"]
    mergedScope_cases [of "Some ''admin''" "''admin''" c1 getMatchedScope "''write read''"]
    mergedScope_cases [of None "''x''" c1 getMatchedScope "''write admin''"]
  by (simp add: c1_def truthy_def validateScope_def getMatchedScope_def)

text \<open>
  C7 as stated fails for a request scope that is supplied and empty. For the wildcard
  client \<open>c2\<close> the empty request scope is valid and is not \<^verbatim>\<open>*\<close>, so with the subject
  scope \<^verbatim>\<open>*\<close> the claim returns the request scope; the code returns the subject scope.
  For \<open>c1\<close> the empty request scope is invalid, so the claim returns \<^verbatim>\<open>undefined\<close>;
  the code returns a scope.
\<close>

theorem mergedScope_empty_request_counterexample:
  "validateScope c2 [] \<and> [] \<noteq> ''*''
   \<and> mergedScope getMatchedScope c2 ''*'' (Some []) = Some ''*''
   \<and> mergedScope getMatchedScope c2 ''*'' (Some []) \<noteq> Some []
   \<and> \<not> validateScope c1 []
   \<and> mergedScope getMatchedScope c1 ''read'' (Some []) = Some ''read''
   \<and> mergedScope getMatchedScope c1 ''read'' (Some []) \<noteq> None"
  by (simp add: c1_def c2_def truthy_def validateScope_def mergedScope_def getMatchedScope_def)

section \<open>The save hook\<close>

text \<open>
  C4, as the code has it. After the hook the client type is confidential exactly when the
  profile is web. For the web profile the hook leaves the secret key as it was (it
  neither creates nor requires one); for any other profile the type is public and the
  secret key is cleared. The grants are the entry of the spec's table for the client type
  and the internal flag.
\<close>

theorem pre_save_derivation:
  "(c_clientType (fst (pre_save isURL this)) = Confidential) = (c_clientProfile this = Web)
   \<and> (c_clientProfile this = Web \<longrightarrow>
        c_secretKey (fst (pre_save isURL this)) = c_secretKey this)
   \<and> (c_clientProfile this \<noteq> Web \<longrightarrow>
        c_clientType (fst (pre_save isURL this)) = Public
        \<and> c_secretKey (fst (pre_save isURL this)) = None)
   \<and> c_internal (fst (pre_save isURL this)) = c_internal this
   \<and> c_grants (fst (pre_save isURL this)) =
        spec_grants (c_clientType (fst (pre_save isURL this)))
          (c_internal (fst (pre_save isURL this)))"
  by (simp add: pre_save_def Let_def)

theorem pre_save_derivation_witness:
  "c_clientProfile web_draft = Web
   \<and> c_clientType (fst (pre_save example_isURL web_draft)) = Confidential
   \<and> c_secretKey (fst (pre_save example_isURL (web_draft\<lparr>c_secretKey := Some ''k''\<rparr>)))
       = Some ''k''
   \<and> c_grants (fst (pre_save example_isURL web_draft)) = [Implicit, AuthorizationCode]
   \<and> c_grants (fst (pre_save example_isURL (web_draft\<lparr>c_internal := True\<rparr>))) =
        [Implicit, AuthorizationCode, Password, ClientCredentials]
   \<and> c_clientProfile (c2\<lparr>c_secretKey := Some ''k''\<rparr>) \<noteq> Web
   \<and> c_clientType (fst (pre_save example_isURL (c2\<lparr>c_secretKey := Some ''k''\<rparr>))) = Public
   \<and> c_secretKey (fst (pre_save example_isURL (c2\<lparr>c_secretKey := Some ''k''\<rparr>))) = None"
  using pre_save_derivation [of example_isURL web_draft]
    pre_save_derivation [of example_isURL "web_draft\<lparr>c_secretKey := Some ''k''\<rparr>"]
    pre_save_derivation [of example_isURL "web_draft\<lparr>c_internal := True\<rparr>"]
    pre_save_derivation [of example_isURL "c2\<lparr>c_secretKey := Some ''k''\<rparr>"]
  by (simp add: web_draft_def c2_def)

text \<open>
  C4 as stated fails for a web client saved without a secret key. The draft has no
  redirect URI, so the hook finds no invalid one whatever \<^verbatim>\<open>validator.isURL\<close> answers:
  its only call of \<^verbatim>\<open>next\<close> carries no error. The client is confidential, and the
  secret key is still absent.
\<close>

theorem pre_save_web_without_secret_counterexample:
  "c_clientProfile web_draft = Web
   \<and> c_redirectURIs web_draft = []
   \<and> snd (pre_save example_isURL web_draft) = [None]
   \<and> c_clientType (fst (pre_save example_isURL web_draft)) = Confidential
   \<and> c_secretKey (fst (pre_save example_isURL web_draft)) = None"
  by (simp add: web_draft_def pre_save_def Let_def)

section \<open>The token factory\<close>

text \<open>
  C6: a call of \<^verbatim>\<open>newAccessToken\<close> with a grant of the client succeeds, and its result
  carries a refresh token exactly when the grant is neither \<^verbatim>\<open>client_credentials\<close> nor
  \<^verbatim>\<open>implicit\<close> and the client is confidential. The access token record is appended to
  the store in every case; in exactly the case of a refresh token one refresh token record
  is appended, which refers to the new access token and expires after the refresh lifetime
  of the client.
\<close>

theorem newAccessToken_refresh_token:
  assumes "p_grant params \<in> set (c_grants this)"
  shows "\<exists>tok s'. newAccessToken e oauthParams s this params = Inr (tok, s')
     \<and> (refreshToken tok \<noteq> None) =
         (p_grant params \<noteq> ClientCredentials \<and> p_grant params \<noteq> Implicit
          \<and> c_clientType this = Confidential)
     \<and> st_accessTokens s' =
         st_accessTokens s @
           [\<lparr>at_id = st_nextId s, at_userId = p_subject params, at_client = c_id this,
             at_name = c_name this, at_scope = p_scope params,
             at_expiresAt = add_seconds (e_now e) (accessTokenExpiresIn this oauthParams),
             at_userAgent = e_userAgent e\<rparr>]
     \<and> st_refreshTokens s' =
         (if refreshToken tok \<noteq> None
          then st_refreshTokens s @
                 [\<lparr>rt_id = Suc (st_nextId s), rt_accessToken = st_nextId s,
                   rt_expiresAt =
                     add_seconds (e_now e) (refreshTokenExpiresIn this oauthParams)\<rparr>]
          else st_refreshTokens s)"
  using assms by (simp add: newAccessToken_def Let_def)

theorem newAccessToken_refresh_token_witness:
  "p_grant \<lparr>p_grant = AuthorizationCode, p_scope = ''read'', p_subject = ''u1''\<rparr>
     \<in> set (c_grants c1)
   \<and> (\<exists>tok s'. newAccessToken example_env example_params example_store c1
                   \<lparr>p_grant = AuthorizationCode, p_scope = ''read'', p_subject = ''u1''\<rparr>
                 = Inr (tok, s')
        \<and> refreshToken tok \<noteq> None
        \<and> st_refreshTokens s' =
            [\<lparr>rt_id = 11, rt_accessToken = 10, rt_expiresAt = 86401000\<rparr>])"
proof -
  let ?p = "\<lparr>p_grant = AuthorizationCode, p_scope = ''read'', p_subject = ''u1''\<rparr>"
  have g: "p_grant ?p \<in> set (c_grants c1)"
    by (simp add: c1_def)
  from newAccessToken_refresh_token [OF g, of example_env example_params example_store]
  obtain tok s' where
    "newAccessToken example_env example_params example_store c1 ?p = Inr (tok, s')"
    and r: "(refreshToken tok \<noteq> None) =
         (p_grant ?p \<noteq> ClientCredentials \<and> p_grant ?p \<noteq> Implicit
          \<and> c_clientType c1 = Confidential)"
    and "st_refreshTokens s' =
         (if refreshToken tok \<noteq> None
          then st_refreshTokens example_store @
                 [\<lparr>rt_id = Suc (st_nextId example_store),
                   rt_accessToken = st_nextId example_store,
                   rt_expiresAt =
                     add_seconds (e_now example_env)
                       (refreshTokenExpiresIn c1 example_params)\<rparr>]
          else st_refreshTokens example_store)"
    by blast
  moreover have "refreshToken tok \<noteq> None" using r by (simp add: c1_def)
  ultimately show ?thesis using g
    by (simp add: example_store_def example_env_def example_params_def c1_def
        add_seconds_def refreshTokenExpiresIn_def)
qed

section \<open>Lemmas on the authorization code grant\<close>

lemma generateTokens_Inl:
  "generateTokens e oauthParams s client oc = Inl err \<Longrightarrow>
     AuthorizationCode \<notin> set (c_grants client)
     \<and> err = WithMessage ''authorization_code authorization grant type is not allowed for this client.''"
  by (auto simp: generateTokens_def newAccessToken_def Let_def split: if_splits)

lemma generateTokens_Inr:
  "AuthorizationCode \<in> set (c_grants client) \<Longrightarrow>
     \<exists>r s'. generateTokens e oauthParams s client oc = Inr (r, s')
        \<and> r_status r = HttpStatus_Ok \<and> st_authCodes s' = st_authCodes s"
  by (simp add: generateTokens_def newAccessToken_def Let_def)

lemma generateTokens_result:
  "generateTokens e oauthParams s client oc = Inr (r, s') \<Longrightarrow>
     AuthorizationCode \<in> set (c_grants client)
     \<and> r_status r = HttpStatus_Ok \<and> st_authCodes s' = st_authCodes s"
  by (auto simp: generateTokens_def newAccessToken_def Let_def split: if_splits)

lemma codeVerifierCheck_status:
  "codeVerifierCheck e oc data = Some err \<Longrightarrow>
     \<exists>d. err = WithStatus HttpStatus_BadRequest d
        \<and> (error d = ''invalid_request'' \<or> error d = ''invalid_grant'')"
  by (auto simp: codeVerifierCheck_def split: option.splits if_splits)

lemma catch_thrown_message:
  "catch_thrown (WithMessage m) = \<lparr>r_status = HttpStatus_BadRequest, r_body = ErrorBody server_error\<rparr>"
  by (simp add: catch_thrown_def)

lemma catch_thrown_bad_request:
  "catch_thrown (WithStatus HttpStatus_BadRequest d) =
     \<lparr>r_status = HttpStatus_BadRequest, r_body = ErrorBody d\<rparr>"
  by (simp add: catch_thrown_def HttpStatus_BadRequest_def)

lemma catch_thrown_unauthorized:
  "catch_thrown (WithStatus HttpStatus_Unauthorized d) =
     \<lparr>r_status = HttpStatus_Unauthorized, r_body = ErrorBody d\<rparr>"
  by (simp add: catch_thrown_def HttpStatus_Unauthorized_def)

lemma run_try_found:
  assumes "findAuthCode s (c_id client) (d_code data) = Some oc"
    and "e_now e \<le> ac_expiresAt oc" and "ac_revokedAt oc = None"
    and "d_redirect_uri data = Some (ac_redirectUri oc)"
  shows "run_try e oauthParams s data client =
           (case codeVerifierCheck e oc data of
              Some err \<Rightarrow> Inl err
            | None \<Rightarrow> generateTokens e oauthParams s client oc)"
  using assms by (simp add: run_try_def)

lemma run_try_Inl:
  assumes "run_try e oauthParams s data client = Inl err"
  shows "\<exists>d. catch_thrown err = \<lparr>r_status = HttpStatus_BadRequest, r_body = ErrorBody d\<rparr>
           \<and> error d \<in> {''invalid_grant'', ''invalid_request'', ''server_error''}"
proof (cases "findAuthCode s (c_id client) (d_code data)")
  case None
  with assms show ?thesis
    by (auto simp: run_try_def catch_thrown_bad_request)
next
  case (Some oc)
  show ?thesis
  proof (cases "e_now e \<le> ac_expiresAt oc \<and> ac_revokedAt oc = None
                 \<and> d_redirect_uri data = Some (ac_redirectUri oc)")
    case False
    with assms Some show ?thesis
      by (auto simp: run_try_def catch_thrown_bad_request split: if_splits)
  next
    case True
    with assms Some have c: "(case codeVerifierCheck e oc data of
              Some err \<Rightarrow> Inl err
            | None \<Rightarrow> generateTokens e oauthParams s client oc) = Inl err"
      by (simp add: run_try_found)
    show ?thesis
    proof (cases "codeVerifierCheck e oc data")
      case None
      with c have "generateTokens e oauthParams s client oc = Inl err" by simp
      from generateTokens_Inl [OF this] show ?thesis
        by (simp add: catch_thrown_message server_error_def)
    next
      case (Some err')
      with c have "err' = err" by simp
      with Some codeVerifierCheck_status [of e oc data err] show ?thesis
        by (auto simp: catch_thrown_bad_request)
    qed
  qed
qed

lemma run_try_Inr:
  assumes "run_try e oauthParams s data client = Inr (r, s')"
  shows "\<exists>oc. findAuthCode s (c_id client) (d_code data) = Some oc
           \<and> e_now e \<le> ac_expiresAt oc \<and> ac_revokedAt oc = None
           \<and> d_redirect_uri data = Some (ac_redirectUri oc)
           \<and> codeVerifierCheck e oc data = None
           \<and> generateTokens e oauthParams s client oc = Inr (r, s')"
  using assms
  by (auto simp: run_try_def split: option.splits if_splits)

lemma hashed_verifier_now:
  "hashed_verifier (e\<lparr>e_now := t\<rparr>) v = hashed_verifier e v"
  by (simp add: hashed_verifier_def)

lemma codeVerifierCheck_now:
  "codeVerifierCheck (e\<lparr>e_now := t\<rparr>) oc data = codeVerifierCheck e oc data"
  by (simp add: codeVerifierCheck_def hashed_verifier_now split: option.splits)

lemma findAuthCode_cong:
  "st_authCodes s' = st_authCodes s \<Longrightarrow> findAuthCode s' c code = findAuthCode s c code"
  by (simp add: findAuthCode_def)

text \<open>A run answers 200 exactly when its \<^verbatim>\<open>try\<close> block returns.\<close>

lemma run_Ok:
  "(r_status (fst (run e oauthParams s data client)) = HttpStatus_Ok)
     = (\<exists>res. run_try e oauthParams s data client = Inr res)"
proof (cases "run_try e oauthParams s data client")
  case (Inl err)
  from run_try_Inl [OF Inl] show ?thesis using Inl
    by (auto simp: run_def HttpStatus_Ok_def HttpStatus_BadRequest_def)
next
  case (Inr res)
  obtain r s' where res: "res = (r, s')" by (cases res)
  from run_try_Inr [of e oauthParams s data client r s'] Inr res
  obtain oc where "generateTokens e oauthParams s client oc = Inr (r, s')" by auto
  from generateTokens_result [OF this] show ?thesis using Inr res
    by (simp add: run_def)
qed

lemma run_authCodes:
  "st_authCodes (snd (run e oauthParams s data client)) = st_authCodes s"
proof (cases "run_try e oauthParams s data client")
  case (Inl err)
  then show ?thesis by (simp add: run_def)
next
  case (Inr res)
  obtain r s' where res: "res = (r, s')" by (cases res)
  from run_try_Inr [of e oauthParams s data client r s'] Inr res
  obtain oc where "generateTokens e oauthParams s client oc = Inr (r, s')" by auto
  from generateTokens_result [OF this] show ?thesis using Inr res
    by (simp add: run_def)
qed

text \<open>
  C1, as the code has it: \<^verbatim>\<open>run\<close> never writes an authorization code, so a successful
  request leaves the stored code as it was, not revoked. A later request with the same
  data, at any time up to the expiry of the code, is answered with 200 again. A code that
  is found revoked in the store, and has not expired, is answered with 400
  \<^verbatim>\<open>invalid_grant\<close>.
\<close>

theorem run_does_not_revoke:
  "st_authCodes (snd (run e oauthParams s data client)) = st_authCodes s
   \<and> (r_status (fst (run e oauthParams s data client)) = HttpStatus_Ok
        \<and> findAuthCode s (c_id client) (d_code data) = Some oc
        \<and> t \<le> ac_expiresAt oc \<longrightarrow>
      r_status (fst (run (e\<lparr>e_now := t\<rparr>) oauthParams
                      (snd (run e oauthParams s data client)) data client)) = HttpStatus_Ok)
   \<and> (findAuthCode s (c_id client) (d_code data) = Some oc
        \<and> e_now e \<le> ac_expiresAt oc \<and> ac_revokedAt oc \<noteq> None \<longrightarrow>
      run e oauthParams s data client =
        (\<lparr>r_status = HttpStatus_BadRequest,
          r_body = ErrorBody
            \<lparr>error = ''invalid_grant'',
             error_description =
               ''The authorization code has been revoked. Try to get another one.''\<rparr>\<rparr>, s))"
proof (intro conjI impI)
  show "st_authCodes (snd (run e oauthParams s data client)) = st_authCodes s"
    by (rule run_authCodes)
next
  assume a: "r_status (fst (run e oauthParams s data client)) = HttpStatus_Ok
        \<and> findAuthCode s (c_id client) (d_code data) = Some oc
        \<and> t \<le> ac_expiresAt oc"
  let ?s' = "snd (run e oauthParams s data client)"
  from a obtain r s' where ok: "run_try e oauthParams s data client = Inr (r, s')"
    by (auto simp: run_Ok)
  from run_try_Inr [OF ok] a have
    chk: "ac_revokedAt oc = None" "d_redirect_uri data = Some (ac_redirectUri oc)"
      "codeVerifierCheck e oc data = None"
    and gen: "generateTokens e oauthParams s client oc = Inr (r, s')"
    by auto
  from generateTokens_result [OF gen] have g: "AuthorizationCode \<in> set (c_grants client)"
    by simp
  have f: "findAuthCode ?s' (c_id client) (d_code data) = Some oc"
    using a by (simp add: findAuthCode_cong [OF run_authCodes])
  have "run_try (e\<lparr>e_now := t\<rparr>) oauthParams ?s' data client =
          generateTokens (e\<lparr>e_now := t\<rparr>) oauthParams ?s' client oc"
    using run_try_found [of ?s' client data oc "e\<lparr>e_now := t\<rparr>" oauthParams] f a chk
    by (simp add: codeVerifierCheck_now)
  with generateTokens_Inr [OF g, of "e\<lparr>e_now := t\<rparr>" oauthParams ?s' oc]
  show "r_status (fst (run (e\<lparr>e_now := t\<rparr>) oauthParams ?s' data client)) = HttpStatus_Ok"
    by (auto simp: run_Ok)
next
  assume "findAuthCode s (c_id client) (d_code data) = Some oc
        \<and> e_now e \<le> ac_expiresAt oc \<and> ac_revokedAt oc \<noteq> None"
  then show "run e oauthParams s data client =
        (\<lparr>r_status = HttpStatus_BadRequest,
          r_body = ErrorBody
            \<lparr>error = ''invalid_grant'',
             error_description =
               ''The authorization code has been revoked. Try to get another one.''\<rparr>\<rparr>, s)"
    by (auto simp: run_def run_try_def catch_thrown_bad_request)
qed


lemma example_findAuthCode:
  "findAuthCode example_store (c_id c1) (d_code request_s256) = Some code_s256"
  by (simp add: findAuthCode_def example_store_def c1_def request_s256_def code_s256_def)

lemma example_codeVerifierCheck:
  "codeVerifierCheck example_env code_s256 request_s256 = None"
  by (simp add: codeVerifierCheck_def truthy_def code_s256_def request_s256_def
      hashed_verifier_def base64_to_url_def example_env_def example_digest_def)

lemma example_run_Ok:
  "r_status (fst (run example_env example_params example_store request_s256 c1)) = HttpStatus_Ok"
proof -
  have "run_try example_env example_params example_store request_s256 c1 =
          generateTokens example_env example_params example_store c1 code_s256"
    using run_try_found [OF example_findAuthCode, of example_env example_params]
    by (simp add: example_codeVerifierCheck)
       (simp add: example_env_def code_s256_def request_s256_def)
  with generateTokens_Inr [of c1 example_env example_params example_store code_s256]
  show ?thesis by (auto simp: run_Ok c1_def)
qed

lemma example_findAuthCode_revoked:
  "findAuthCode example_store (c_id c1) (d_code request_revoked) = Some code_revoked"
  by (simp add: findAuthCode_def example_store_def c1_def request_revoked_def request_s256_def
      code_s256_def code_plain_def code_nomethod_def code_emptyhash_def code_revoked_def)

theorem run_does_not_revoke_witness:
  "r_status (fst (run example_env example_params example_store request_s256 c1)) = HttpStatus_Ok
   \<and> findAuthCode example_store (c_id c1) (d_code request_s256) = Some code_s256
   \<and> 2000 \<le> ac_expiresAt code_s256
   \<and> r_status (fst (run (example_env\<lparr>e_now := 2000\<rparr>) example_params
                   (snd (run example_env example_params example_store request_s256 c1))
                   request_s256 c1)) = HttpStatus_Ok
   \<and> findAuthCode example_store (c_id c1) (d_code request_revoked) = Some code_revoked
   \<and> e_now example_env \<le> ac_expiresAt code_revoked \<and> ac_revokedAt code_revoked \<noteq> None
   \<and> response_error (fst (run example_env example_params example_store request_revoked c1))
       = Some ''invalid_grant''"
  using run_does_not_revoke [of example_env example_params example_store request_s256 c1
      code_s256 2000]
    run_does_not_revoke [of example_env example_params example_store request_revoked c1
      code_revoked]
    example_run_Ok example_findAuthCode example_findAuthCode_revoked
  by (simp add: code_s256_def code_revoked_def example_env_def response_error_def)

text \<open>
  C1 as stated fails for the token request of scenario 1: it is answered with 200, the
  code found for the same request in the resulting store is the same and is not revoked,
  and the same request on the resulting store is answered with 200 again.
\<close>

theorem run_redeems_twice_counterexample:
  "r_status (fst (run example_env example_params example_store request_s256 c1)) = HttpStatus_Ok
   \<and> findAuthCode (snd (run example_env example_params example_store request_s256 c1))
        (c_id c1) (d_code request_s256) = Some code_s256
   \<and> ac_revokedAt code_s256 = None
   \<and> r_status (fst (run example_env example_params
                   (snd (run example_env example_params example_store request_s256 c1))
                   request_s256 c1)) = HttpStatus_Ok"
proof -
  let ?s' = "snd (run example_env example_params example_store request_s256 c1)"
  have a: "st_authCodes ?s' = st_authCodes example_store" by (rule run_authCodes)
  have f: "findAuthCode ?s' (c_id c1) (d_code request_s256) = Some code_s256"
    by (simp add: findAuthCode_cong [OF a] example_findAuthCode)
  have "run_try example_env example_params ?s' request_s256 c1 =
          generateTokens example_env example_params ?s' c1 code_s256"
    using run_try_found [OF f, of example_env example_params]
    by (simp add: example_codeVerifierCheck)
       (simp add: example_env_def code_s256_def request_s256_def)
  with generateTokens_Inr [of c1 example_env example_params ?s' code_s256]
  have "r_status (fst (run example_env example_params ?s' request_s256 c1)) = HttpStatus_Ok"
    by (auto simp: run_Ok c1_def)
  moreover have "ac_revokedAt code_s256 = None"
    by (simp add: code_s256_def)
  ultimately show ?thesis using example_run_Ok f by simp
qed

text \<open>
  C3, as the code has it: when the requested grant is not among the grants of the client,
  \<^verbatim>\<open>newAccessToken\<close> persists nothing and throws an object that has a message and
  neither a status nor an OAuth error code. The \<^verbatim>\<open>catch\<close> blocks answer such a value
  with 400 \<^verbatim>\<open>server_error\<close>. For the authorization code grant the request leaves the
  store as it was and is answered with status 400 and one of the codes
  \<^verbatim>\<open>invalid_grant\<close>, \<^verbatim>\<open>invalid_request\<close>, \<^verbatim>\<open>server_error\<close>.
\<close>

theorem newAccessToken_grant_not_allowed:
  assumes "p_grant params \<notin> set (c_grants this)"
  shows "newAccessToken e oauthParams s this params =
           Inl (WithMessage (grant_str (p_grant params)
                  @ '' authorization grant type is not allowed for this client.''))
     \<and> catch_thrown (WithMessage (grant_str (p_grant params)
                  @ '' authorization grant type is not allowed for this client.'')) =
         \<lparr>r_status = HttpStatus_BadRequest, r_body = ErrorBody server_error\<rparr>
     \<and> (p_grant params = AuthorizationCode \<longrightarrow>
          snd (run e oauthParams s data this) = s
          \<and> r_status (fst (run e oauthParams s data this)) = HttpStatus_BadRequest
          \<and> response_error (fst (run e oauthParams s data this))
              \<in> {Some ''invalid_grant'', Some ''invalid_request'', Some ''server_error''})"
proof (intro conjI impI)
  show "newAccessToken e oauthParams s this params =
           Inl (WithMessage (grant_str (p_grant params)
                  @ '' authorization grant type is not allowed for this client.''))"
    using assms by (simp add: newAccessToken_def)
next
  show "catch_thrown (WithMessage (grant_str (p_grant params)
                  @ '' authorization grant type is not allowed for this client.'')) =
         \<lparr>r_status = HttpStatus_BadRequest, r_body = ErrorBody server_error\<rparr>"
    by (rule catch_thrown_message)
next
  assume "p_grant params = AuthorizationCode"
  with assms have n: "AuthorizationCode \<notin> set (c_grants this)" by simp
  have "\<exists>err. run_try e oauthParams s data this = Inl err"
  proof (cases "run_try e oauthParams s data this")
    case (Inl err)
    then show ?thesis by simp
  next
    case (Inr res)
    obtain r s' where "res = (r, s')" by (cases res)
    with Inr run_try_Inr [of e oauthParams s data this r s']
    obtain oc where "generateTokens e oauthParams s this oc = Inr (r, s')" by auto
    from generateTokens_result [OF this] n show ?thesis by simp
  qed
  then obtain err where err: "run_try e oauthParams s data this = Inl err" ..
  from run_try_Inl [OF err] obtain d where
    d: "catch_thrown err = \<lparr>r_status = HttpStatus_BadRequest, r_body = ErrorBody d\<rparr>"
    and c: "error d \<in> {''invalid_grant'', ''invalid_request'', ''server_error''}"
    by blast
  show "snd (run e oauthParams s data this) = s"
    using err by (simp add: run_def)
  show "r_status (fst (run e oauthParams s data this)) = HttpStatus_BadRequest"
    using err d by (simp add: run_def)
  show "response_error (fst (run e oauthParams s data this))
              \<in> {Some ''invalid_grant'', Some ''invalid_request'', Some ''server_error''}"
    using err d c by (simp add: run_def response_error_def)
qed

theorem newAccessToken_grant_not_allowed_witness:
  "p_grant \<lparr>p_grant = AuthorizationCode, p_scope = ''read'', p_subject = ''u1''\<rparr>
     \<notin> set (c_grants (c1\<lparr>c_grants := [Implicit]\<rparr>))
   \<and> newAccessToken example_env example_params example_store (c1\<lparr>c_grants := [Implicit]\<rparr>)
        \<lparr>p_grant = AuthorizationCode, p_scope = ''read'', p_subject = ''u1''\<rparr> =
      Inl (WithMessage
            ''authorization_code authorization grant type is not allowed for this client.'')
   \<and> snd (run example_env example_params example_store request_s256
             (c1\<lparr>c_grants := [Implicit]\<rparr>)) = example_store
   \<and> r_status (fst (run example_env example_params example_store request_s256
             (c1\<lparr>c_grants := [Implicit]\<rparr>))) = HttpStatus_BadRequest"
  using newAccessToken_grant_not_allowed
    [of "\<lparr>p_grant = AuthorizationCode, p_scope = ''read'', p_subject = ''u1''\<rparr>"
        "c1\<lparr>c_grants := [Implicit]\<rparr>" example_env example_params example_store request_s256]
  by simp

text \<open>
  C3 as stated fails: the password grant is not among the grants of the external client
  \<open>c1\<close>, the factory throws a message, and the \<^verbatim>\<open>catch\<close> block turns it into
  \<^verbatim>\<open>server_error\<close>, not \<^verbatim>\<open>unauthorized_client\<close>. The same holds for a whole
  authorization code request of a client stored without that grant.
\<close>

theorem newAccessToken_server_error_counterexample:
  "Password \<notin> set (c_grants c1)
   \<and> newAccessToken example_env example_params example_store c1
        \<lparr>p_grant = Password, p_scope = ''read'', p_subject = ''u1''\<rparr> =
      Inl (WithMessage ''password authorization grant type is not allowed for this client.'')
   \<and> response_error
        (catch_thrown
          (WithMessage ''password authorization grant type is not allowed for this client.''))
       = Some ''server_error''
   \<and> AuthorizationCode \<notin> set (c_grants (c1\<lparr>c_grants := [Implicit]\<rparr>))
   \<and> response_error (fst (run example_env example_params example_store request_s256
                             (c1\<lparr>c_grants := [Implicit]\<rparr>))) = Some ''server_error''"
proof -
  have "run_try example_env example_params example_store request_s256
          (c1\<lparr>c_grants := [Implicit]\<rparr>) =
        generateTokens example_env example_params example_store
          (c1\<lparr>c_grants := [Implicit]\<rparr>) code_s256"
    using run_try_found [of example_store "c1\<lparr>c_grants := [Implicit]\<rparr>" request_s256
        code_s256 example_env example_params] example_findAuthCode
    by (simp add: example_codeVerifierCheck)
       (simp add: example_env_def code_s256_def request_s256_def)
  then have "run_try example_env example_params example_store request_s256
          (c1\<lparr>c_grants := [Implicit]\<rparr>) =
        Inl (WithMessage
              ''authorization_code authorization grant type is not allowed for this client.'')"
    by (simp add: generateTokens_def newAccessToken_def)
  then have "response_error (fst (run example_env example_params example_store request_s256
                             (c1\<lparr>c_grants := [Implicit]\<rparr>))) = Some ''server_error''"
    by (simp add: run_def catch_thrown_message response_error_def server_error_def)
  then show ?thesis
    by (simp add: c1_def newAccessToken_def catch_thrown_message response_error_def
        server_error_def)
qed


lemma base64_to_url_chars:
  "CHR ''='' \<notin> set (base64_to_url d) \<and> CHR ''+'' \<notin> set (base64_to_url d)
   \<and> CHR ''/'' \<notin> set (base64_to_url d)"
  by (auto simp: base64_to_url_def)






section \<open>PKCE verification\<close>










section \<open>The preamble of the token endpoint\<close>

lemma answers_catch_thrown:
  "st0 \<noteq> 0 \<Longrightarrow>
     answers (catch_thrown (WithStatus st0 d), s) st code s'
       = (st = st0 \<and> code = error d \<and> s' = s)"
  by (auto simp: answers_def catch_thrown_def response_error_def)

lemma token_try_client:
  assumes "truthy (d_client_id data) = Some client_id"
    and "findClient s client_id = Some client"
    and "c_revokedAt client = None"
  shows "token_try e oauthParams s data =
     (if scope_rejected client data then
        Inl (WithStatus HttpStatus_BadRequest
          \<lparr>error = ''invalid_scope'',
           error_description =
             ''The requested scope is invalid, unknown, malformed, or exceeds the scope granted.''\<rparr>)
      else if c_clientType client = Confidential \<and> truthy (d_client_secret data) = None then
        Inl (WithStatus HttpStatus_BadRequest
          \<lparr>error = ''invalid_request'',
           error_description =
             ''The secret_secret is required for confidential client. You can send it with client_id in body or via Basic Auth header.''\<rparr>)
      else if secret_rejected e oauthParams client data then
        Inl (WithStatus HttpStatus_Unauthorized
          \<lparr>error = ''invalid_client'', error_description = ''Invalid client secret.''\<rparr>)
      else if d_grant_type data = Some ''authorization_code'' then
        Inr (run e oauthParams s data client)
      else if d_grant_type data = Some ''client_credentials'' then
        Inr (e_clientCredentials_run e s data client)
      else if d_grant_type data = Some ''password'' then
        Inr (e_password_run e s data client)
      else if d_grant_type data = Some ''refresh_token'' then
        Inr (e_refreshToken_run e s data client)
      else
        Inl (WithStatus HttpStatus_BadRequest
          \<lparr>error = ''unsupported_grant_type'',
           error_description =
             ''The authorization grant type is not supported by the authorization server.''\<rparr>))"
  using assms by (simp add: token_try_def)

lemma scope_rejected_iff:
  "scope_rejected client data =
     (\<exists>sc. truthy (d_scope data) = Some sc \<and> \<not> validateScope client sc)"
  by (simp add: scope_rejected_def split: option.splits)


text \<open>
  C8, as the code has it, on the request data after a Basic header, when there is one, has
  replaced the credentials of the body. In this order: an absent or empty \<^verbatim>\<open>client_id\<close>
  (in particular no Basic header and no \<^verbatim>\<open>client_id\<close> in the body) is answered with 400
  \<^verbatim>\<open>invalid_request\<close>; an unknown client with 401 \<^verbatim>\<open>invalid_client\<close>; a revoked
  client with 401 \<^verbatim>\<open>invalid_client\<close>; a non-empty scope that \<^verbatim>\<open>validateScope\<close>
  rejects with 400 \<^verbatim>\<open>invalid_scope\<close>; a confidential client with an absent or empty
  \<^verbatim>\<open>client_secret\<close> with 400 \<^verbatim>\<open>invalid_request\<close>; a non-empty secret that fails
  the verification with 401 \<^verbatim>\<open>invalid_client\<close>; and a grant type outside the four
  known ones with 400 \<^verbatim>\<open>unsupported_grant_type\<close>. Each answer leaves the store as it
  was.
\<close>

theorem token_preamble_order:
  "(let data = with_basic basicAuthCredentials body;
        res = OauthController_token e oauthParams s basicAuthCredentials body;
        passed_client =
          (truthy (d_client_id data) = Some client_id \<and> findClient s client_id = Some client
           \<and> c_revokedAt client = None);
        secret_missing =
          (c_clientType client = Confidential \<and> truthy (d_client_secret data) = None)
    in (basicAuthCredentials = None \<and> d_client_id body = None \<longrightarrow>
          answers res 400 ''invalid_request'' s)
     \<and> (truthy (d_client_id data) = None \<longrightarrow> answers res 400 ''invalid_request'' s)
     \<and> (truthy (d_client_id data) = Some client_id \<and> findClient s client_id = None \<longrightarrow>
          answers res 401 ''invalid_client'' s)
     \<and> (truthy (d_client_id data) = Some client_id \<and> findClient s client_id = Some client
          \<and> c_revokedAt client \<noteq> None \<longrightarrow>
          answers res 401 ''invalid_client'' s)
     \<and> (passed_client \<and> scope_rejected client data \<longrightarrow>
          answers res 400 ''invalid_scope'' s)
     \<and> (passed_client \<and> \<not> scope_rejected client data \<and> secret_missing \<longrightarrow>
          answers res 400 ''invalid_request'' s)
     \<and> (passed_client \<and> \<not> scope_rejected client data \<and> \<not> secret_missing
          \<and> secret_rejected e oauthParams client data \<longrightarrow>
          answers res 401 ''invalid_client'' s)
     \<and> (passed_client \<and> \<not> scope_rejected client data \<and> \<not> secret_missing
          \<and> \<not> secret_rejected e oauthParams client data
          \<and> d_grant_type body \<notin>
              {Some ''authorization_code'', Some ''client_credentials'',
               Some ''password'', Some ''refresh_token''} \<longrightarrow>
          answers res 400 ''unsupported_grant_type'' s))"
proof -
  let ?data = "with_basic basicAuthCredentials body"
  let ?res = "OauthController_token e oauthParams s basicAuthCredentials body"
  have g: "d_grant_type ?data = d_grant_type body"
    by (simp add: with_basic_def split: option.splits)
  have n: "truthy (d_client_id ?data) = None \<Longrightarrow> answers ?res 400 ''invalid_request'' s"
    by (simp add: OauthController_token_def token_try_def answers_catch_thrown
        HttpStatus_BadRequest_def)
  have n0: "basicAuthCredentials = None \<and> d_client_id body = None \<Longrightarrow>
      truthy (d_client_id ?data) = None"
    by (simp add: with_basic_def truthy_def)
  have u: "truthy (d_client_id ?data) = Some client_id \<Longrightarrow> findClient s client_id = None \<Longrightarrow>
      answers ?res 401 ''invalid_client'' s"
    by (simp add: OauthController_token_def token_try_def answers_catch_thrown
        HttpStatus_Unauthorized_def)
  have r: "truthy (d_client_id ?data) = Some client_id \<Longrightarrow>
      findClient s client_id = Some client \<Longrightarrow> c_revokedAt client \<noteq> None \<Longrightarrow>
      answers ?res 401 ''invalid_client'' s"
    by (auto simp: OauthController_token_def token_try_def answers_catch_thrown
        HttpStatus_Unauthorized_def)
  have c: "truthy (d_client_id ?data) = Some client_id \<Longrightarrow>
      findClient s client_id = Some client \<Longrightarrow> c_revokedAt client = None \<Longrightarrow>
      (scope_rejected client ?data \<longrightarrow> answers ?res 400 ''invalid_scope'' s)
      \<and> (\<not> scope_rejected client ?data
           \<and> c_clientType client = Confidential \<and> truthy (d_client_secret ?data) = None \<longrightarrow>
           answers ?res 400 ''invalid_request'' s)
      \<and> (\<not> scope_rejected client ?data
           \<and> \<not> (c_clientType client = Confidential \<and> truthy (d_client_secret ?data) = None)
           \<and> secret_rejected e oauthParams client ?data \<longrightarrow>
           answers ?res 401 ''invalid_client'' s)
      \<and> (\<not> scope_rejected client ?data
           \<and> \<not> (c_clientType client = Confidential \<and> truthy (d_client_secret ?data) = None)
           \<and> \<not> secret_rejected e oauthParams client ?data
           \<and> d_grant_type body \<notin>
               {Some ''authorization_code'', Some ''client_credentials'',
                Some ''password'', Some ''refresh_token''} \<longrightarrow>
           answers ?res 400 ''unsupported_grant_type'' s)"
    unfolding OauthController_token_def
    by (simp add: token_try_client g answers_catch_thrown
        HttpStatus_BadRequest_def HttpStatus_Unauthorized_def)
  show ?thesis
    unfolding Let_def
    by (intro conjI impI) (use n n0 u r c in auto)
qed


lemma example_findClient:
  "findClient example_store ''c1'' = Some c1" "findClient example_store ''c2'' = Some c2"
  by (simp_all add: findClient_def example_store_def c1_def c2_def)

theorem token_preamble_order_witness:
  "d_client_id empty_request = None
   \<and> answers (OauthController_token example_env example_params example_store None empty_request)
        400 ''invalid_request'' example_store
   \<and> truthy (d_client_id (with_basic None request_wrong_secret)) = Some ''c2''
   \<and> findClient example_store ''c2'' = Some c2 \<and> c_revokedAt c2 = None
   \<and> \<not> scope_rejected c2 (with_basic None request_wrong_secret)
   \<and> c_clientType c2 \<noteq> Confidential
   \<and> secret_rejected example_env example_params c2 (with_basic None request_wrong_secret)
   \<and> answers (OauthController_token example_env example_params example_store None
                 request_wrong_secret)
        401 ''invalid_client'' example_store"
proof -
  have h: "d_client_id empty_request = None"
    "truthy (d_client_id (with_basic None request_wrong_secret)) = Some ''c2''"
    "c_revokedAt c2 = None"
    "\<not> scope_rejected c2 (with_basic None request_wrong_secret)"
    "c_clientType c2 \<noteq> Confidential"
    "secret_rejected example_env example_params c2 (with_basic None request_wrong_secret)"
    by (simp_all add: empty_request_def request_wrong_secret_def with_basic_def truthy_def
        c2_def scope_rejected_def secret_rejected_def example_env_def example_verify_def)
  from token_preamble_order [where basicAuthCredentials = None and body = empty_request
      and e = example_env and oauthParams = example_params and s = example_store] h(1)
  have 1: "answers
      (OauthController_token example_env example_params example_store None empty_request)
        400 ''invalid_request'' example_store"
    by (simp add: Let_def)
  from token_preamble_order [where basicAuthCredentials = None and body = request_wrong_secret
      and e = example_env and oauthParams = example_params and s = example_store
      and client_id = "''c2''" and client = c2] h(2-6) example_findClient(2)
  have 2: "answers
      (OauthController_token example_env example_params example_store None request_wrong_secret)
        401 ''invalid_client'' example_store"
    by (simp add: Let_def)
  from h 1 2 example_findClient(2) show ?thesis by simp
qed

text \<open>
  C8 as stated fails for an empty scope and for an empty secret. The empty scope in the
  body fails \<^verbatim>\<open>validateScope\<close> for \<open>c1\<close>, and the request is not answered with
  \<^verbatim>\<open>invalid_scope\<close>: it reaches the dispatch. The empty secret supplied for the public
  client \<open>c2\<close> fails the verification, and the request is not answered with
  \<^verbatim>\<open>invalid_client\<close>: it reaches the dispatch.
\<close>

theorem token_empty_scope_and_secret_counterexample:
  "d_scope request_empty_scope = Some [] \<and> d_client_id request_empty_scope = Some ''c1''
   \<and> findClient example_store ''c1'' = Some c1 \<and> \<not> validateScope c1 []
   \<and> answers (OauthController_token example_env example_params example_store None
                 request_empty_scope)
        400 ''unsupported_grant_type'' example_store
   \<and> d_client_secret request_empty_secret = Some []
   \<and> d_client_id request_empty_secret = Some ''c2''
   \<and> findClient example_store ''c2'' = Some c2
   \<and> \<not> e_verifyClientSecret example_env (c_clientId c2) []
          (OAUTH_HMAC_ALGORITHM example_params) (OAUTH_SECRET_KEY example_params)
   \<and> answers (OauthController_token example_env example_params example_store None
                 request_empty_secret)
        400 ''unsupported_grant_type'' example_store"
proof -
  have a: "truthy (d_client_id (with_basic None request_empty_scope)) = Some ''c1''"
    "c_revokedAt c1 = None"
    "\<not> scope_rejected c1 (with_basic None request_empty_scope)"
    "truthy (d_client_secret (with_basic None request_empty_scope)) \<noteq> None"
    "\<not> secret_rejected example_env example_params c1 (with_basic None request_empty_scope)"
    "d_grant_type (with_basic None request_empty_scope) = Some ''bogus''"
    by (simp_all add: request_empty_scope_def empty_request_def with_basic_def truthy_def
        c1_def scope_rejected_def secret_rejected_def example_env_def example_verify_def)
  have b: "truthy (d_client_id (with_basic None request_empty_secret)) = Some ''c2''"
    "c_revokedAt c2 = None"
    "\<not> scope_rejected c2 (with_basic None request_empty_secret)"
    "c_clientType c2 \<noteq> Confidential"
    "\<not> secret_rejected example_env example_params c2 (with_basic None request_empty_secret)"
    "d_grant_type (with_basic None request_empty_secret) = Some ''bogus''"
    by (simp_all add: request_empty_secret_def empty_request_def with_basic_def truthy_def
        c2_def scope_rejected_def secret_rejected_def)
  have 1: "answers (OauthController_token example_env example_params example_store None
                 request_empty_scope)
        400 ''unsupported_grant_type'' example_store"
    unfolding OauthController_token_def
      token_try_client [OF a(1) example_findClient(1) a(2)]
    using a(3-6) by (simp add: answers_catch_thrown HttpStatus_BadRequest_def)
  have 2: "answers (OauthController_token example_env example_params example_store None
                 request_empty_secret)
        400 ''unsupported_grant_type'' example_store"
    unfolding OauthController_token_def
      token_try_client [OF b(1) example_findClient(2) b(2)]
    using b(3-6) by (simp add: answers_catch_thrown HttpStatus_BadRequest_def)
  have 3: "\<not> validateScope c1 []"
    "\<not> e_verifyClientSecret example_env (c_clientId c2) []
          (OAUTH_HMAC_ALGORITHM example_params) (OAUTH_SECRET_KEY example_params)"
    by (simp_all add: validateScope_def c1_def c2_def example_env_def example_verify_def)
  from 1 2 3 example_findClient show ?thesis
    by (simp add: request_empty_scope_def request_empty_secret_def empty_request_def)
qed




end
